theory Spec2Isabelle
  imports Main
begin

section \<open>JavaScript values\<close>

text \<open>
  The SDK works on parsed JSON and on plain option objects, so a run-time value is one
  of the JSON shapes or \<open>undefined\<close>. An object is the list of its own properties
  (the first binding of a name is the one that counts), with \<open>Object.prototype\<close> as
  its prototype; no value of the model is a function. A \<open>string\<close> is the list of
  the code units of the JavaScript string. A number is kept as the text
  \<^verbatim>\<open>Number.prototype.toString\<close> gives for it (\<open>3\<close>, \<open>-1.5\<close>, \<open>1e+21\<close>, \<open>NaN\<close>;
  both zeros are \<open>0\<close>): the program never computes with a number, it only tests
  one for truth, asks for its type and converts it to a string.

  Property lookup (\<open>js_in\<close>, \<open>js_get\<close>) sees own properties only. The names an
  object inherits (\<open>constructor\<close>, \<open>toString\<close>, \<open>__proto__\<close>, ...) lead to
  functions and prototype objects, which are not values of the model. Where a path
  segment or a variation key is such a name and not an own property, the code finds
  the inherited value where the model finds nothing; that value is never a string,
  an image object or a variation object, so the accessor returns what it returns in
  the model, but the warnings it logs can differ.
\<close>

datatype jsval =
    JUndefined
  | JNull
  | JBool bool
  | JNum string
  | JStr string
  | JArr "jsval list"
  | JObj "(string \<times> jsval) list"

text \<open>What the program can throw or be handed as a rejection.\<close>

datatype js_error =
    TypeError
  | Error string
  | AxiosError "int option" jsval string
  | Cancel string

text \<open>\<^verbatim>\<open>typeof v\<close> and the truthiness test of \<^verbatim>\<open>!v\<close>, \<^verbatim>\<open>v && ...\<close>, \<^verbatim>\<open>v || ...\<close>.\<close>

fun js_typeof :: "jsval \<Rightarrow> string" where
  "js_typeof JUndefined = ''undefined''"
| "js_typeof JNull = ''object''"
| "js_typeof (JBool b) = ''boolean''"
| "js_typeof (JNum n) = ''number''"
| "js_typeof (JStr s) = ''string''"
| "js_typeof (JArr xs) = ''object''"
| "js_typeof (JObj kvs) = ''object''"

fun truthy :: "jsval \<Rightarrow> bool" where
  "truthy JUndefined = False"
| "truthy JNull = False"
| "truthy (JBool b) = b"
| "truthy (JNum n) = (n \<noteq> ''0'' \<and> n \<noteq> ''NaN'')"
| "truthy (JStr s) = (s \<noteq> [])"
| "truthy (JArr xs) = True"
| "truthy (JObj kvs) = True"

text \<open>\<^verbatim>\<open>a || b\<close> yields \<open>a\<close> when it is truthy, else \<open>b\<close>.\<close>

definition js_or :: "jsval \<Rightarrow> jsval \<Rightarrow> jsval" where
  "js_or a b = (if truthy a then a else b)"

text \<open>Decimal digits, for array indices and lengths.\<close>

definition digit_char :: "nat \<Rightarrow> char" where
  "digit_char d = ''0123456789'' ! d"

fun show_nat :: "nat \<Rightarrow> string" where
  "show_nat n = (if n < 10 then [digit_char n] else show_nat (n div 10) @ [digit_char (n mod 10)])"

definition is_digit :: "char \<Rightarrow> bool" where
  "is_digit c = (c \<in> set ''0123456789'')"

definition digit_val :: "char \<Rightarrow> nat" where
  "digit_val c = length (takeWhile (\<lambda>d. d \<noteq> c) ''0123456789'')"

text \<open>
  A property name is an array index when it is the canonical decimal form of a number:
  digits only, no leading zero.
\<close>

definition array_index :: "string \<Rightarrow> nat option" where
  "array_index k =
     (if k \<noteq> [] \<and> list_all is_digit k \<and> (k = ''0'' \<or> hd k \<noteq> CHR ''0'')
      then Some (foldl (\<lambda>acc c. 10 * acc + digit_val c) 0 k)
      else None)"

text \<open>
  \<^verbatim>\<open>key in v\<close>: a TypeError when \<open>v\<close> is not an object (null included). An array
  has its indices and \<open>length\<close>.
\<close>

fun js_in :: "string \<Rightarrow> jsval \<Rightarrow> js_error + bool" where
  "js_in k (JObj kvs) = Inr (map_of kvs k \<noteq> None)"
| "js_in k (JArr xs) =
     Inr (k = ''length'' \<or> (case array_index k of Some i \<Rightarrow> i < length xs | None \<Rightarrow> False))"
| "js_in k v = Inl TypeError"

text \<open>
  \<^verbatim>\<open>v[key]\<close> and \<^verbatim>\<open>v.key\<close>: a TypeError on null and undefined, \<open>undefined\<close>
  for a name the value does not have.
\<close>

fun js_get :: "jsval \<Rightarrow> string \<Rightarrow> js_error + jsval" where
  "js_get JUndefined k = Inl TypeError"
| "js_get JNull k = Inl TypeError"
| "js_get (JObj kvs) k = Inr (case map_of kvs k of Some v \<Rightarrow> v | None \<Rightarrow> JUndefined)"
| "js_get (JArr xs) k =
     Inr (if k = ''length'' then JNum (show_nat (length xs))
          else (case array_index k of
                  Some i \<Rightarrow> if i < length xs then xs ! i else JUndefined
                | None \<Rightarrow> JUndefined))"
| "js_get (JStr s) k =
     Inr (if k = ''length'' then JNum (show_nat (length s))
          else (case array_index k of
                  Some i \<Rightarrow> if i < length s then JStr [s ! i] else JUndefined
                | None \<Rightarrow> JUndefined))"
| "js_get (JBool b) k = Inr JUndefined"
| "js_get (JNum n) k = Inr JUndefined"

text \<open>\<^verbatim>\<open>Array.prototype.join\<close> with a comma, over already converted elements.\<close>

fun join_comma :: "string list \<Rightarrow> string" where
  "join_comma [] = []"
| "join_comma [s] = s"
| "join_comma (s # t # ss) = s @ '','' @ join_comma (t # ss)"

text \<open>
  \<^verbatim>\<open>String(v)\<close>, which is also the conversion of \<^verbatim>\<open>${v}\<close> in a template literal.
  An object is converted by its \<open>toString\<close>: the inherited one gives
  \<open>[object Object]\<close>; an own property of that name is not callable, and then neither
  it nor \<open>valueOf\<close> yields a primitive, which is a TypeError. An array joins its
  elements, with null and undefined as the empty string, and fails where an element
  fails.
\<close>

fun js_String :: "jsval \<Rightarrow> js_error + string" where
  "js_String JUndefined = Inr ''undefined''"
| "js_String JNull = Inr ''null''"
| "js_String (JBool b) = Inr (if b then ''true'' else ''false'')"
| "js_String (JNum n) = Inr n"
| "js_String (JStr s) = Inr s"
| "js_String (JArr xs) =
     (let rs = map (\<lambda>x. if x = JUndefined \<or> x = JNull then Inr [] else js_String x) xs
      in case filter isl rs of
           [] \<Rightarrow> Inr (join_comma (map projr rs))
         | r # _ \<Rightarrow> Inl (projl r))"
| "js_String (JObj kvs) =
     (if map_of kvs ''toString'' \<noteq> None then Inl TypeError else Inr ''[object Object]'')"

section \<open>The console\<close>

text \<open>
  Every \<^verbatim>\<open>console.log\<close>, \<^verbatim>\<open>console.warn\<close> and \<^verbatim>\<open>console.error\<close> call of the
  source is one entry: its level and a tag for the call site that carries the values
  the message interpolates.
\<close>

datatype log_level = LogLevel | WarnLevel | ErrorLevel

datatype log_msg =
    ContentLoaded
  | FailedToLoadContent js_error
  | VariableNotFound string string string
  | GetTextNotLoaded string
  | GetTextPathNotFound string
  | GetTextNotString string string
  | GetImageNotLoaded string
  | GetImagePathNotFound string
  | GetImageInvalid string jsval
  | GetImageUrl jsval
  | GetVariationNotLoaded string "string option"
  | GetVariationPathNotFound string
  | GetVariationKeyNotString string string string
  | GetVariationKeyNotFound string string
  | GetVariationDefaultNotString string string
  | GetVariationNeither "string option" string
  | GetVariationInvalid string jsval
  | StartingFetch string
  | ReceivedJson string
  | RequestCancelled string
  | ErrorProcessing string string
  | ErrorStatus "int option"
  | ErrorResponseData jsval
  | ErrorMessage string
  | ErrorOther js_error

type_synonym log_entry = "log_level \<times> log_msg"

section \<open>The variable interpolator\<close>

text \<open>\<^verbatim>\<open>\w\<close> of a regular expression without the unicode flag: \<open>[A-Za-z0-9_]\<close>.\<close>

definition word_char :: "char \<Rightarrow> bool" where
  "word_char c =
     (let n = (of_char c :: nat)
      in (48 \<le> n \<and> n \<le> 57) \<or> (65 \<le> n \<and> n \<le> 90) \<or> n = 95 \<or> (97 \<le> n \<and> n \<le> 122))"

text \<open>
  One attempt of \<^verbatim>\<open>/\{(\w+)}/\<close> at the start of a text: an opening brace, the longest
  run of word characters (at least one), a closing brace. A shorter run cannot match,
  since the character after it is a word character. The result is the captured name
  and the text after the match.
\<close>

definition match_placeholder :: "string \<Rightarrow> (string \<times> string) option" where
  "match_placeholder s =
     (case s of
        [] \<Rightarrow> None
      | c # t \<Rightarrow>
          if c = CHR ''{'' then
            (let name = takeWhile word_char t; rest = dropWhile word_char t
             in if name \<noteq> [] \<and> rest \<noteq> [] \<and> hd rest = CHR ''}''
                then Some (name, tl rest) else None)
          else None)"

lemma match_placeholder_shorter:
  "match_placeholder s = Some (name, rest) \<Longrightarrow> length rest < length s"
proof -
  assume m: "match_placeholder s = Some (name, rest)"
  then obtain c t where s: "s = c # t"
    by (cases s) (auto simp: match_placeholder_def)
  from m s have "rest = tl (dropWhile word_char t)"
    by (auto simp: match_placeholder_def Let_def split: if_splits)
  moreover have "length (dropWhile word_char t) \<le> length t"
    by (rule length_dropWhile_le)
  ultimately show ?thesis using s by simp
qed

text \<open>
  \<^verbatim>\<open>text.replace(/\{(\w+)}/g, f)\<close>: the matches are found from left to right, a match
  is replaced by what \<open>f\<close> returns for it (the whole match and the captured group),
  the search goes on after the match, and the replacement is not searched again. An
  error \<open>f\<close> throws ends the replacement. The entries \<open>f\<close> has logged are collected
  in order.
\<close>

function replace_placeholders ::
  "(string \<Rightarrow> string \<Rightarrow> (js_error + string) \<times> log_entry list) \<Rightarrow> string
     \<Rightarrow> (js_error + string) \<times> log_entry list" where
  "replace_placeholders f [] = (Inr [], [])"
| "replace_placeholders f (c # cs) =
     (case match_placeholder (c # cs) of
        Some (name, rest) \<Rightarrow>
          (case f (CHR ''{'' # name @ ''}'') name of
             (Inl e, logs) \<Rightarrow> (Inl e, logs)
           | (Inr out, logs) \<Rightarrow>
               (case replace_placeholders f rest of
                  (Inl e, logs') \<Rightarrow> (Inl e, logs @ logs')
                | (Inr out', logs') \<Rightarrow> (Inr (out @ out'), logs @ logs')))
      | None \<Rightarrow>
          (case replace_placeholders f cs of
             (Inl e, logs') \<Rightarrow> (Inl e, logs')
           | (Inr out', logs') \<Rightarrow> (Inr (c # out'), logs')))"
  by pat_completeness auto
termination
  by (relation "measure (\<lambda>(f, s). length s)") (auto dest: match_placeholder_shorter)

text \<open>
  The callback of \<open>populateTextWithVariables\<close>: the value of an own property,
  converted by \<^verbatim>\<open>String\<close>, which can throw; for a missing name a warning, and the
  placeholder itself.
\<close>

definition replacer ::
  "(string \<times> jsval) list \<Rightarrow> string \<Rightarrow> string \<Rightarrow> string \<Rightarrow> (js_error + string) \<times> log_entry list" where
  "replacer variables textKey placeholder variableName =
     (case map_of variables variableName of
        Some v \<Rightarrow> (js_String v, [])
      | None \<Rightarrow> (Inr placeholder, [(WarnLevel, VariableNotFound variableName textKey placeholder)]))"

definition populateTextWithVariables ::
  "string \<Rightarrow> (string \<times> jsval) list \<Rightarrow> string \<Rightarrow> (js_error + string) \<times> log_entry list" where
  "populateTextWithVariables text variables textKey =
     replace_placeholders (replacer variables textKey) text"

section \<open>The content store\<close>

text \<open>
  The module-level variables and the two fields of \<open>window\<close> the module owns. A
  language code is a string at run time and is stored as the caller passed it.
  \<open>inFrame\<close> is the test \<^verbatim>\<open>window.parent && window.parent !== window\<close>, which the
  environment decides. The module assigns \<open>window.memoryMap\<close> when it is loaded, so
  \<open>window\<close> is defined wherever these functions can be called.
\<close>

record memory_entry =
  ids :: "string list"
  type :: string
  variation :: "string option"

record state =
  activeContent :: jsval
  appConfig :: jsval
  memoryMap :: "jsval \<Rightarrow> memory_entry option"
  currentLanguageCode :: jsval
  console :: "log_entry list"
  inFrame :: bool

definition initial_state :: "bool \<Rightarrow> state" where
  "initial_state frame =
     \<lparr>activeContent = JNull, appConfig = JNull, memoryMap = (\<lambda>k. None),
      currentLanguageCode = JNull, console = [], inFrame = frame\<rparr>"

definition log :: "log_level \<Rightarrow> log_msg \<Rightarrow> state \<Rightarrow> state" where
  "log lvl msg st = st\<lparr>console := console st @ [(lvl, msg)]\<rparr>"

text \<open>The guarded body of \<open>setContentLanguage\<close> (the \<^verbatim>\<open>try\<close> block).\<close>

definition setContentLanguage_try :: "state \<Rightarrow> jsval \<Rightarrow> jsval \<Rightarrow> state \<times> (js_error + unit)" where
  "setContentLanguage_try st languageCode contentJson =
     (log LogLevel ContentLoaded
        (st\<lparr>activeContent := contentJson, currentLanguageCode := languageCode\<rparr>),
      Inr ())"

definition setContentLanguage :: "state \<Rightarrow> jsval \<Rightarrow> jsval \<Rightarrow> state \<times> (js_error + unit)" where
  "setContentLanguage st languageCode contentJson =
     (if \<not> truthy contentJson \<or> js_typeof contentJson \<noteq> ''object'' then
        (st, Inl (Error ''[Contentstorage] Invalid contentJson might be provided which caused setContentLanguage to fail.''))
      else
        (case setContentLanguage_try st languageCode contentJson of
           (st', Inr u) \<Rightarrow> (st', Inr ())
         | (st', Inl error) \<Rightarrow>
             (log ErrorLevel (FailedToLoadContent error)
                (st'\<lparr>activeContent := JNull, currentLanguageCode := JNull\<rparr>),
              Inr ())))"

text \<open>\<^verbatim>\<open>Array.isArray\<close>.\<close>

fun is_array :: "jsval \<Rightarrow> bool" where
  "is_array (JArr xs) = True"
| "is_array v = False"

text \<open>
  The condition of \<open>initContentStorage\<close>, with the short circuit of \<^verbatim>\<open>||\<close>: a
  property of \<open>config\<close> is read only when \<open>config\<close> is a truthy object.
\<close>

definition config_rejected :: "jsval \<Rightarrow> js_error + bool" where
  "config_rejected config =
     (if \<not> truthy config \<or> js_typeof config \<noteq> ''object'' then Inr True
      else
        (case js_get config ''contentKey'' of
           Inl e \<Rightarrow> Inl e
         | Inr contentKey \<Rightarrow>
             if \<not> truthy contentKey then Inr True
             else
               (case js_get config ''languageCodes'' of
                  Inl e \<Rightarrow> Inl e
                | Inr languageCodes \<Rightarrow> Inr (\<not> is_array languageCodes))))"

definition initContentStorage :: "state \<Rightarrow> jsval \<Rightarrow> state \<times> (js_error + unit)" where
  "initContentStorage st config =
     (case config_rejected config of
        Inl e \<Rightarrow> (st, Inl e)
      | Inr True \<Rightarrow>
          (case js_get config ''contentKey'' of
             Inl e \<Rightarrow> (st, Inl e)
           | Inr contentKey \<Rightarrow>
               if \<not> truthy contentKey then
                 (st, Inl (Error ''[Contentstorage] No contentKey provided in initContentStorage function.''))
               else
                 (case js_get config ''languageCodes'' of
                    Inl e \<Rightarrow> (st, Inl e)
                  | Inr languageCodes \<Rightarrow>
                      if \<not> is_array languageCodes then
                        (st, Inl (Error ''[Contentstorage] No languageCodes provided in initContentStorage function.''))
                      else (st, Inl (Error ''[Contentstorage] Invalid config.''))))
      | Inr False \<Rightarrow> (st\<lparr>appConfig := config\<rparr>, Inr ()))"

section \<open>The path resolver\<close>

text \<open>\<^verbatim>\<open>s.split('.')\<close>: the pieces between the separators, empty pieces included.\<close>

fun split_on :: "char \<Rightarrow> string \<Rightarrow> string list" where
  "split_on sep [] = [[]]"
| "split_on sep (c # cs) =
     (if c = sep then [] # split_on sep cs
      else (case split_on sep cs of
              [] \<Rightarrow> [[c]]
            | w # ws \<Rightarrow> (c # w) # ws))"

text \<open>
  The traversal loop the three accessors share: \<open>None\<close> is the early return of the
  loop (a segment is missing or the current node is not a truthy object), \<open>Some\<close> the
  node the loop ends at.
\<close>

fun walk :: "jsval \<Rightarrow> string list \<Rightarrow> js_error + jsval option" where
  "walk current [] = Inr (Some current)"
| "walk current (key # keys) =
     (if truthy current \<and> js_typeof current = ''object'' then
        (case js_in key current of
           Inl e \<Rightarrow> Inl e
         | Inr present \<Rightarrow>
             if present then
               (case js_get current key of
                  Inl e \<Rightarrow> Inl e
                | Inr v \<Rightarrow> walk v keys)
             else Inr None)
      else Inr None)"

text \<open>
  The instrumentation block of the accessors: inside a frame, the content id joins the
  id set stored under the key, and the entry is stored again with the type and the
  variation of this read. The keys of the text and image branches are strings. The
  fallback branch of \<open>getVariation\<close> uses the variation object as the key, which a
  \<^verbatim>\<open>Map\<close> tells apart by identity; the model has no identities and takes two
  nodes of equal content for one key.
\<close>

definition remember :: "jsval \<Rightarrow> string \<Rightarrow> string \<Rightarrow> string option \<Rightarrow> state \<Rightarrow> state" where
  "remember key cid ty var st =
     (if inFrame st then
        (let idSet = (case memoryMap st key of Some existingEntry \<Rightarrow> ids existingEntry | None \<Rightarrow> []);
             idSet' = (if cid \<in> set idSet then idSet else idSet @ [cid])
         in st\<lparr>memoryMap := (memoryMap st)(key \<mapsto> \<lparr>ids = idSet', type = ty, variation = var\<rparr>)\<rparr>)
      else st)"

record has_contentId =
  contentId :: string

record GetTextReturn = has_contentId +
  "text" :: string

type_synonym GetVariationReturn = GetTextReturn

record GetImageReturn = has_contentId +
  data :: jsval

text \<open>
  The tail both text branches share: without variables, or with an empty mapping, the
  value itself; otherwise the interpolated value, whose warnings reach the console.
  An error of the interpolation leaves the accessor uncaught.
\<close>

definition with_variables ::
  "state \<Rightarrow> string \<Rightarrow> string \<Rightarrow> (string \<times> jsval) list option \<Rightarrow> state \<times> (js_error + GetTextReturn)" where
  "with_variables st cid current variables =
     (case variables of
        None \<Rightarrow> (st, Inr \<lparr>contentId = cid, text = current\<rparr>)
      | Some vars \<Rightarrow>
          if vars = [] then (st, Inr \<lparr>contentId = cid, text = current\<rparr>)
          else
            (let (res, logs) = populateTextWithVariables current vars cid
             in (st\<lparr>console := console st @ logs\<rparr>,
                 case res of
                   Inl e \<Rightarrow> Inl e
                 | Inr t \<Rightarrow> Inr \<lparr>contentId = cid, text = t\<rparr>)))"

definition getText ::
  "state \<Rightarrow> string \<Rightarrow> (string \<times> jsval) list option \<Rightarrow> state \<times> (js_error + GetTextReturn)" where
  "getText st cid variables =
     (let defaultVal = \<lparr>contentId = cid, text = []\<rparr> in
      if \<not> truthy (activeContent st) then
        (log WarnLevel (GetTextNotLoaded cid) st, Inr defaultVal)
      else
        (case walk (activeContent st) (split_on CHR ''.'' cid) of
           Inl e \<Rightarrow> (st, Inl e)
         | Inr None \<Rightarrow> (log WarnLevel (GetTextPathNotFound cid) st, Inr defaultVal)
         | Inr (Some current) \<Rightarrow>
             (case current of
                JStr s \<Rightarrow> with_variables (remember (JStr s) cid ''text'' None st) cid s variables
              | _ \<Rightarrow>
                  (log WarnLevel (GetTextNotString cid (js_typeof current)) st, Inr defaultVal))))"






text \<open>
  The test of \<open>getVariation\<close> on the node the traversal ends at: a truthy object whose
  \<open>contentstorage_type\<close> is \<open>'variation'\<close> and whose \<open>data\<close> is a non-null object.
\<close>

definition is_variation_object :: "jsval \<Rightarrow> js_error + bool" where
  "is_variation_object current =
     (if truthy current \<and> js_typeof current = ''object'' then
        (case js_get current ''contentstorage_type'' of
           Inl e \<Rightarrow> Inl e
         | Inr t \<Rightarrow>
             if t = JStr ''variation'' then
               (case js_get current ''data'' of
                  Inl e \<Rightarrow> Inl e
                | Inr d \<Rightarrow> Inr (js_typeof d = ''object'' \<and> d \<noteq> JNull))
             else Inr False)
      else Inr False)"

text \<open>
  The condition of the first branch (lines 267 to 271): the variation key is given, is
  a non-empty string and is a property of \<open>data\<close>. \<open>Some\<close> holds the key then.
\<close>

definition requested_key :: "string option \<Rightarrow> jsval \<Rightarrow> js_error + string option" where
  "requested_key variationKey vdata =
     (case variationKey of
        None \<Rightarrow> Inr None
      | Some vk \<Rightarrow>
          if vk = [] then Inr None
          else
            (case js_in vk vdata of
               Inl e \<Rightarrow> Inl e
             | Inr present \<Rightarrow> Inr (if present then Some vk else None)))"

text \<open>
  The fallback to the \<open>'default'\<close> variation (lines 307 to 346). Its condition asks
  for \<^verbatim>\<open>typeof variationKey === 'string'\<close>; the value it returns is
  \<open>data.default\<close> as stored; the instrumentation key is the variation object, the
  \<open>current\<close> of the enclosing scope.
\<close>

definition getVariation_default ::
  "state \<Rightarrow> string \<Rightarrow> string option \<Rightarrow> jsval \<Rightarrow> jsval \<Rightarrow> state \<times> (js_error + GetTextReturn)" where
  "getVariation_default st cid variationKey current vdata =
     (let defaultVal = \<lparr>contentId = cid, text = []\<rparr> in
      case js_in ''default'' vdata of
        Inl e \<Rightarrow> (st, Inl e)
      | Inr hasDefault \<Rightarrow>
          (case (hasDefault, variationKey) of
             (True, Some vk) \<Rightarrow>
               (case js_get vdata ''default'' of
                  Inl e \<Rightarrow> (st, Inl e)
                | Inr d \<Rightarrow>
                    (case d of
                       JStr s \<Rightarrow>
                         (let st1 = (if vk \<noteq> [] \<and> vk \<noteq> ''default''
                                     then log WarnLevel (GetVariationKeyNotFound vk cid) st else st);
                              st2 = remember current cid ''variation'' (Some ''default'') st1
                          in (st2, Inr \<lparr>contentId = cid, text = s\<rparr>))
                     | _ \<Rightarrow>
                         (log WarnLevel (GetVariationNeither variationKey cid)
                            (log WarnLevel (GetVariationDefaultNotString cid (js_typeof d)) st),
                          Inr defaultVal)))
           | _ \<Rightarrow> (log WarnLevel (GetVariationNeither variationKey cid) st, Inr defaultVal)))"

definition getVariation ::
  "state \<Rightarrow> string \<Rightarrow> string option \<Rightarrow> (string \<times> jsval) list option
     \<Rightarrow> state \<times> (js_error + GetVariationReturn)" where
  "getVariation st cid variationKey variables =
     (let defaultVal = \<lparr>contentId = cid, text = []\<rparr> in
      if \<not> truthy (activeContent st) then
        (log WarnLevel (GetVariationNotLoaded cid variationKey) st, Inr defaultVal)
      else
        (case walk (activeContent st) (split_on CHR ''.'' cid) of
           Inl e \<Rightarrow> (st, Inl e)
         | Inr None \<Rightarrow> (log WarnLevel (GetVariationPathNotFound cid) st, Inr defaultVal)
         | Inr (Some current) \<Rightarrow>
             (case is_variation_object current of
                Inl e \<Rightarrow> (st, Inl e)
              | Inr False \<Rightarrow> (log WarnLevel (GetVariationInvalid cid current) st, Inr defaultVal)
              | Inr True \<Rightarrow>
                  (case js_get current ''data'' of
                     Inl e \<Rightarrow> (st, Inl e)
                   | Inr vdata \<Rightarrow>
                       (case requested_key variationKey vdata of
                          Inl e \<Rightarrow> (st, Inl e)
                        | Inr None \<Rightarrow> getVariation_default st cid variationKey current vdata
                        | Inr (Some vk) \<Rightarrow>
                            (case js_get vdata vk of
                               Inl e \<Rightarrow> (st, Inl e)
                             | Inr v \<Rightarrow>
                                 (case v of
                                    JStr s \<Rightarrow>
                                      with_variables
                                        (remember (JStr s) cid ''variation'' (Some vk) st)
                                        cid s variables
                                  | _ \<Rightarrow>
                                      getVariation_default
                                        (log WarnLevel (GetVariationKeyNotString vk cid (js_typeof v)) st)
                                        cid variationKey current vdata)))))))"

text \<open>
  The spec's reading of a content path, for comparison with \<open>walk\<close>: the content
  tree is a nested mapping from string keys to values, and a path addresses the node
  reached by looking its segments up in turn.
\<close>

fun spec_node_at :: "jsval \<Rightarrow> string list \<Rightarrow> jsval option" where
  "spec_node_at v [] = Some v"
| "spec_node_at (JObj kvs) (k # ks) =
     (case map_of kvs k of Some v \<Rightarrow> spec_node_at v ks | None \<Rightarrow> None)"
| "spec_node_at v (k # ks) = None"

section \<open>The fetch coordinator\<close>

text \<open>
  \<open>CONTENTSTORAGE_CONFIG\<close> comes from a file that is not among the sources; its two
  URLs are a parameter of the model.
\<close>

record contentstorage_config =
  BASE_URL :: string
  API_URL :: string

record FetchContentOptions =
  withPendingChanges :: jsval
  contentKey :: jsval

text \<open>\<^verbatim>\<open>v?.k\<close>: undefined on null and undefined, the property otherwise.\<close>

fun opt_get :: "jsval \<Rightarrow> string \<Rightarrow> jsval" where
  "opt_get JUndefined k = JUndefined"
| "opt_get JNull k = JUndefined"
| "opt_get v k = (case js_get v k of Inr x \<Rightarrow> x | Inl e \<Rightarrow> JUndefined)"

text \<open>
  The local variables of one \<open>fetchContent\<close> call that its timer callback and the
  code after \<^verbatim>\<open>await\<close> still use. \<open>languageText\<close> is the text of
  \<^verbatim>\<open>${languageToFetch}\<close>: the call converts the language when it builds the url,
  and every later template literal of the call converts the same value again, to the
  same text.
\<close>

record call_locals =
  languageToFetch :: jsval
  languageText :: string
  effectiveContentKey :: jsval
  fileUrl :: string
  requestKey :: string

text \<open>
  The target resolution of \<open>fetchContent\<close> (lines 24 to 55 and 145), after the first
  log line: an error it throws, or whether the draft path is taken and the locals.
  The template literals of the url and of the request key convert the language and
  the content key, which can throw.
\<close>

definition resolve_target ::
  "contentstorage_config \<Rightarrow> state \<Rightarrow> jsval \<Rightarrow> FetchContentOptions \<Rightarrow> js_error + bool \<times> call_locals" where
  "resolve_target cfg st language options =
     (let languageToFetch' = js_or language (opt_get (opt_get (appConfig st) ''languageCodes'') ''0'');
          usePendingChangesToFetch =
            js_or (withPendingChanges options) (opt_get (appConfig st) ''pendingChanges'')
      in if \<not> truthy languageToFetch' then Inl (Error ''No language found'')
         else if \<not> truthy (appConfig st) then Inl (Error ''No app config found'')
         else
           (case js_get (appConfig st) ''contentKey'' of
              Inl e \<Rightarrow> Inl e
            | Inr configKey \<Rightarrow>
                (let effectiveContentKey' = js_or (contentKey options) configKey in
                 if truthy usePendingChangesToFetch then
                   if \<not> truthy effectiveContentKey' then Inl (Error ''No contentKey found'')
                   else
                     (case js_String languageToFetch' of
                        Inl e \<Rightarrow> Inl e
                      | Inr lang \<Rightarrow>
                          (case js_String effectiveContentKey' of
                             Inl e \<Rightarrow> Inl e
                           | Inr key \<Rightarrow>
                               Inr (True,
                                    \<lparr>languageToFetch = languageToFetch',
                                     languageText = lang,
                                     effectiveContentKey = effectiveContentKey',
                                     fileUrl = API_URL cfg
                                               @ ''/pending-changes/get-json?languageCode='' @ lang,
                                     requestKey = lang @ '':'' @ key\<rparr>)))
                 else
                   (case js_String effectiveContentKey' of
                      Inl e \<Rightarrow> Inl e
                    | Inr key \<Rightarrow>
                        (case js_String languageToFetch' of
                           Inl e \<Rightarrow> Inl e
                         | Inr lang \<Rightarrow>
                             Inr (False,
                                  \<lparr>languageToFetch = languageToFetch',
                                   languageText = lang,
                                   effectiveContentKey = effectiveContentKey',
                                   fileUrl = BASE_URL cfg @ ''/'' @ key @ ''/content/'' @ lang
                                             @ ''.json'',
                                   requestKey = []\<rparr>))))))"

text \<open>
  How \<^verbatim>\<open>axios.get\<close> settles: with a response, whose body is kept, or with an error.
\<close>

datatype net_result = Response jsval | Failure js_error

text \<open>
  The body of the \<^verbatim>\<open>try\<close> block after the request, which both paths have: the
  envelope is unwrapped on the draft path only (the CDN path asks for
  \<open>usePendingChangesToFetch\<close> first, which is falsy there), then the two checks of
  the body, the log line and \<open>setContentLanguage\<close>.
\<close>

definition receive ::
  "state \<Rightarrow> call_locals \<Rightarrow> bool \<Rightarrow> net_result \<Rightarrow> state \<times> (js_error + unit)" where
  "receive st locals unwrap r =
     (case r of
        Failure e \<Rightarrow> (st, Inl e)
      | Response body \<Rightarrow>
          (case (if unwrap \<and> truthy body \<and> js_typeof body = ''object''
                 then js_in ''data'' body else Inr False) of
             Inl e \<Rightarrow> (st, Inl e)
           | Inr wrapped \<Rightarrow>
               (case (if wrapped then js_get body ''data'' else Inr body) of
                  Inl e \<Rightarrow> (st, Inl e)
                | Inr jsonData \<Rightarrow>
                    if jsonData = JUndefined \<or> jsonData = JNull then
                      (st, Inl (Error (''No data received from '' @ fileUrl locals @ '' for language ''
                                       @ languageText locals @ ''.'')))
                    else if js_typeof jsonData \<noteq> ''object'' then
                      (st, Inl (Error (''Expected a single JSON object from '' @ fileUrl locals
                                       @ '' for language '' @ languageText locals
                                       @ '', but received type '' @ js_typeof jsonData
                                       @ ''. Cannot proceed.'')))
                    else
                      setContentLanguage
                        (log LogLevel (ReceivedJson (languageText locals)) st)
                        (languageToFetch locals) jsonData)))"

text \<open>\<^verbatim>\<open>axios.isCancel\<close>, \<^verbatim>\<open>axios.isAxiosError\<close> and the error lines of the handlers.\<close>

fun is_cancel :: "js_error \<Rightarrow> bool" where
  "is_cancel (Cancel m) = True"
| "is_cancel e = False"

fun error_message :: "js_error \<Rightarrow> string" where
  "error_message (Error m) = m"
| "error_message (AxiosError status body m) = m"
| "error_message (Cancel m) = m"
| "error_message TypeError = ''TypeError''"

definition log_failure :: "state \<Rightarrow> call_locals \<Rightarrow> js_error \<Rightarrow> state" where
  "log_failure st locals error =
     (let st1 = log ErrorLevel (ErrorProcessing (languageText locals) (fileUrl locals)) st in
      case error of
        AxiosError status body m \<Rightarrow>
          log ErrorLevel (ErrorMessage m)
            (log ErrorLevel (ErrorResponseData body)
               (log ErrorLevel (ErrorStatus status) st1))
      | _ \<Rightarrow> log ErrorLevel (ErrorOther error) st1)"

text \<open>
  The coordinator: the store, the two registries of the module, and what the event
  loop holds for the calls made so far. A call is known by its number, which also
  names its promise, its timer handle and its cancel token. \<open>timers\<close> are the armed
  timers with the locals of their callback; \<open>inflight\<close> the requests that have not
  settled, with the path (draft or not) of the code that awaits them; \<open>cancelled\<close>
  the tokens whose \<open>cancel\<close> was called; \<open>issued\<close> the calls of \<^verbatim>\<open>axios.get\<close> in
  order, each with its url and headers.
\<close>

datatype promise_state = Pending | Fulfilled | Rejected js_error

record coordinator =
  store :: state
  debounceTimers :: "string \<Rightarrow> nat option"
  cancelTokenSources :: "string \<Rightarrow> nat option"
  timers :: "nat \<Rightarrow> call_locals option"
  inflight :: "nat \<Rightarrow> (bool \<times> call_locals) option"
  cancelled :: "nat set"
  promises :: "nat \<Rightarrow> promise_state option"
  issued :: "(nat \<times> string \<times> (string \<times> jsval) list) list"
  next_id :: nat

definition initial_coordinator :: "state \<Rightarrow> coordinator" where
  "initial_coordinator st =
     \<lparr>store = st, debounceTimers = (\<lambda>k. None), cancelTokenSources = (\<lambda>k. None),
      timers = (\<lambda>i. None), inflight = (\<lambda>i. None), cancelled = {},
      promises = (\<lambda>i. None), issued = [], next_id = 0\<rparr>"

text \<open>
  The synchronous part of the draft path (lines 57 to 69 and 142): the token of a
  request in flight for the key is cancelled and forgotten, the timer armed for the
  key is cleared and forgotten, a new timer is armed and registered. Nothing here
  touches the promise of the call whose timer is cleared.
\<close>

definition schedule_draft :: "coordinator \<Rightarrow> nat \<Rightarrow> call_locals \<Rightarrow> coordinator" where
  "schedule_draft c i locals =
     (let c1 = (case cancelTokenSources c (requestKey locals) of
                  Some existingCancelSource \<Rightarrow>
                    c\<lparr>cancelled := insert existingCancelSource (cancelled c),
                      cancelTokenSources := (cancelTokenSources c)(requestKey locals := None)\<rparr>
                | None \<Rightarrow> c);
          c2 = (case debounceTimers c1 (requestKey locals) of
                  Some existingTimer \<Rightarrow>
                    c1\<lparr>timers := (timers c1)(existingTimer := None),
                       debounceTimers := (debounceTimers c1)(requestKey locals := None)\<rparr>
                | None \<Rightarrow> c1)
      in c2\<lparr>timers := (timers c2)(i \<mapsto> locals),
            debounceTimers := (debounceTimers c2)(requestKey locals \<mapsto> i),
            promises := (promises c2)(i \<mapsto> Pending)\<rparr>)"

text \<open>
  A call of \<open>fetchContent\<close> up to its first suspension. The first log line converts
  \<open>language\<close> in a template literal. An error thrown in an async function rejects
  the promise it returns. On the CDN path the request is issued at once.
\<close>

definition fetchContent ::
  "contentstorage_config \<Rightarrow> coordinator \<Rightarrow> jsval \<Rightarrow> FetchContentOptions \<Rightarrow> coordinator" where
  "fetchContent cfg c language options =
     (let i = next_id c;
          c' = c\<lparr>next_id := Suc i\<rparr>
      in case js_String language of
           Inl e \<Rightarrow> c'\<lparr>promises := (promises c')(i \<mapsto> Rejected e)\<rparr>
         | Inr languageName \<Rightarrow>
             (let c0 = c'\<lparr>store := log LogLevel (StartingFetch languageName) (store c')\<rparr>
              in case resolve_target cfg (store c0) language options of
                   Inl e \<Rightarrow> c0\<lparr>promises := (promises c0)(i \<mapsto> Rejected e)\<rparr>
                 | Inr (True, locals) \<Rightarrow> schedule_draft c0 i locals
                 | Inr (False, locals) \<Rightarrow>
                     c0\<lparr>issued := issued c0 @ [(i, fileUrl locals, [])],
                        inflight := (inflight c0)(i \<mapsto> (False, locals)),
                        promises := (promises c0)(i \<mapsto> Pending)\<rparr>))"

text \<open>The timer callback up to its \<^verbatim>\<open>await\<close> (lines 74 to 83).\<close>

definition timer_fires :: "coordinator \<Rightarrow> nat \<Rightarrow> call_locals \<Rightarrow> coordinator" where
  "timer_fires c i locals =
     c\<lparr>timers := (timers c)(i := None),
       debounceTimers := (debounceTimers c)(requestKey locals := None),
       cancelTokenSources := (cancelTokenSources c)(requestKey locals \<mapsto> i),
       issued := issued c @ [(i, fileUrl locals, [(''X-Content-Key'', effectiveContentKey locals)])],
       inflight := (inflight c)(i \<mapsto> (True, locals))\<rparr>"

text \<open>
  The rest of the timer callback (lines 84 to 139), once the request settles. A
  request whose token was cancelled settles with the cancellation.
\<close>

definition settle_draft :: "coordinator \<Rightarrow> nat \<Rightarrow> call_locals \<Rightarrow> net_result \<Rightarrow> coordinator" where
  "settle_draft c i locals r =
     (let r' = (if i \<in> cancelled c
                then Failure (Cancel ''Request cancelled due to new request'') else r);
          (st', res) = receive (store c) locals True r';
          c1 = c\<lparr>inflight := (inflight c)(i := None),
                 cancelTokenSources := (cancelTokenSources c)(requestKey locals := None)\<rparr>
      in case res of
           Inr u \<Rightarrow> c1\<lparr>store := st', promises := (promises c1)(i \<mapsto> Fulfilled)\<rparr>
         | Inl error \<Rightarrow>
             if is_cancel error then
               c1\<lparr>store := log LogLevel (RequestCancelled (languageText locals)) st',
                  promises := (promises c1)(i \<mapsto> Fulfilled)\<rparr>
             else
               c1\<lparr>store := log_failure st' locals error,
                  promises := (promises c1)(i \<mapsto> Rejected error)\<rparr>)"

text \<open>
  The rest of the CDN path (lines 151 to 193): the handler logs and swallows the
  error, so the promise is fulfilled either way.
\<close>

definition settle_cdn :: "coordinator \<Rightarrow> nat \<Rightarrow> call_locals \<Rightarrow> net_result \<Rightarrow> coordinator" where
  "settle_cdn c i locals r =
     (let (st', res) = receive (store c) locals False r;
          st'' = (case res of Inr u \<Rightarrow> st' | Inl error \<Rightarrow> log_failure st' locals error)
      in c\<lparr>inflight := (inflight c)(i := None), store := st'',
            promises := (promises c)(i \<mapsto> Fulfilled)\<rparr>)"

text \<open>
  What can happen next: a call of \<open>fetchContent\<close>, an armed timer fires, a request in
  flight settles. \<open>None\<close> says that the event cannot happen in this state.
\<close>

datatype event =
    Call jsval FetchContentOptions
  | TimerFires nat
  | Settles nat net_result

fun step :: "contentstorage_config \<Rightarrow> coordinator \<Rightarrow> event \<Rightarrow> coordinator option" where
  "step cfg c (Call language options) = Some (fetchContent cfg c language options)"
| "step cfg c (TimerFires i) =
     (case timers c i of None \<Rightarrow> None | Some locals \<Rightarrow> Some (timer_fires c i locals))"
| "step cfg c (Settles i r) =
     (case inflight c i of
        None \<Rightarrow> None
      | Some (draft, locals) \<Rightarrow>
          Some (if draft then settle_draft c i locals r else settle_cdn c i locals r))"

fun run :: "contentstorage_config \<Rightarrow> coordinator \<Rightarrow> event list \<Rightarrow> coordinator option" where
  "run cfg c [] = Some c"
| "run cfg c (e # es) = (case step cfg c e of None \<Rightarrow> None | Some c' \<Rightarrow> run cfg c' es)"

text \<open>
  A call that can no longer act: no timer of it is armed, no request of it is in
  flight, and its promise is still pending.
\<close>

definition superseded :: "coordinator \<Rightarrow> nat \<Rightarrow> bool" where
  "superseded c i =
     (timers c i = None \<and> inflight c i = None \<and> i < next_id c \<and> promises c i = Some Pending)"

section \<open>Properties of the variable interpolator\<close>

lemma not_word_close: "\<not> word_char CHR ''}''"
  by (simp add: word_char_def)

lemma match_placeholder_at:
  assumes "name \<noteq> []" "list_all word_char name"
  shows "match_placeholder (CHR ''{'' # name @ CHR ''}'' # rest) = Some (name, rest)"
proof -
  have all: "\<And>x. x \<in> set name \<Longrightarrow> word_char x"
    using assms(2) by (simp add: list_all_iff)
  have tw: "takeWhile word_char (name @ CHR ''}'' # rest) = name"
    using all not_word_close by (simp add: takeWhile_append2)
  have dw: "dropWhile word_char (name @ CHR ''}'' # rest) = CHR ''}'' # rest"
    using all not_word_close by (simp add: dropWhile_append2)
  have "match_placeholder (CHR ''{'' # name @ CHR ''}'' # rest) =
          (if name \<noteq> [] \<and> CHR ''}'' # rest \<noteq> [] \<and> hd (CHR ''}'' # rest) = CHR ''}''
           then Some (name, tl (CHR ''}'' # rest)) else None)"
    by (simp only: match_placeholder_def list.case tw dw Let_def) simp
  then show ?thesis using assms(1) by simp
qed

lemma match_placeholder_Some:
  assumes "match_placeholder s = Some (name, rest)"
  shows "name \<noteq> [] \<and> list_all word_char name \<and> s = CHR ''{'' # name @ CHR ''}'' # rest"
proof -
  from assms obtain c t where s: "s = c # t"
    by (cases s) (auto simp: match_placeholder_def)
  from assms s have c: "c = CHR ''{''" and n: "name = takeWhile word_char t" and ne: "name \<noteq> []"
    and d: "dropWhile word_char t \<noteq> []" and h: "hd (dropWhile word_char t) = CHR ''}''"
    and r: "rest = tl (dropWhile word_char t)"
    by (auto simp: match_placeholder_def Let_def split: if_splits)
  have "t = takeWhile word_char t @ dropWhile word_char t" by simp
  also have "dropWhile word_char t = CHR ''}'' # rest"
    using d h r by (cases "dropWhile word_char t") auto
  finally have "t = name @ CHR ''}'' # rest" using n by simp
  moreover have "list_all word_char name"
    unfolding n list_all_iff by (auto dest: set_takeWhileD)
  ultimately show ?thesis using s c ne by simp
qed

lemma match_placeholder_None:
  assumes "\<forall>name tail. name \<noteq> [] \<and> list_all word_char name \<longrightarrow>
             s \<noteq> CHR ''{'' # name @ CHR ''}'' # tail"
  shows "match_placeholder s = None"
proof (cases "match_placeholder s")
  case None
  then show ?thesis .
next
  case (Some p)
  then obtain name rest where "match_placeholder s = Some (name, rest)"
    by (cases p) auto
  from match_placeholder_Some [OF this] assms show ?thesis by blast
qed


text \<open>
  C9. The interpolator is determined by three equations. The empty text stays empty.
  A text that starts with \<open>{name}\<close>, \<open>name\<close> a non-empty run of word characters:
  when \<open>name\<close> is an own key of the variables, the placeholder is replaced by the
  string \<^verbatim>\<open>String\<close> gives for the value (and the call throws where
  \<^verbatim>\<open>String\<close> throws); when it is not, the placeholder stays as it is; the
  interpolation of the rest follows. A text that does not start with such a
  placeholder keeps its first character, followed by the interpolation of the rest.
  In particular \<open>"Hello, {name}!"\<close> with \<open>{ name: "John" }\<close> gives
  \<open>"Hello, John!"\<close>, and \<open>"Hi {x}"\<close> with \<open>{}\<close> gives \<open>"Hi {x}"\<close>.
\<close>

theorem populateTextWithVariables_replaces:
  "fst (populateTextWithVariables [] vars tk) = Inr []
   \<and> (name \<noteq> [] \<and> list_all word_char name \<longrightarrow>
        fst (populateTextWithVariables (CHR ''{'' # name @ CHR ''}'' # rest) vars tk) =
          (case map_of vars name of
             Some v \<Rightarrow>
               (case js_String v of
                  Inl e \<Rightarrow> Inl e
                | Inr str \<Rightarrow>
                    map_sum id (\<lambda>t. str @ t) (fst (populateTextWithVariables rest vars tk)))
           | None \<Rightarrow>
               map_sum id (\<lambda>t. CHR ''{'' # name @ ''}'' @ t)
                 (fst (populateTextWithVariables rest vars tk))))
   \<and> ((\<forall>n tail. n \<noteq> [] \<and> list_all word_char n \<longrightarrow> c # cs \<noteq> CHR ''{'' # n @ CHR ''}'' # tail) \<longrightarrow>
        fst (populateTextWithVariables (c # cs) vars tk) =
          map_sum id (\<lambda>t. c # t) (fst (populateTextWithVariables cs vars tk)))
   \<and> fst (populateTextWithVariables ''Hello, {name}!'' [(''name'', JStr ''John'')] tk)
        = Inr ''Hello, John!''
   \<and> fst (populateTextWithVariables ''Hi {x}'' [] tk) = Inr ''Hi {x}''"
proof (intro conjI impI)
  show "fst (populateTextWithVariables [] vars tk) = Inr []"
    by (simp add: populateTextWithVariables_def)
next
  assume "name \<noteq> [] \<and> list_all word_char name"
  then have m: "match_placeholder (CHR ''{'' # name @ CHR ''}'' # rest) = Some (name, rest)"
    by (simp add: match_placeholder_at)
  show "fst (populateTextWithVariables (CHR ''{'' # name @ CHR ''}'' # rest) vars tk) =
          (case map_of vars name of
             Some v \<Rightarrow>
               (case js_String v of
                  Inl e \<Rightarrow> Inl e
                | Inr str \<Rightarrow>
                    map_sum id (\<lambda>t. str @ t) (fst (populateTextWithVariables rest vars tk)))
           | None \<Rightarrow>
               map_sum id (\<lambda>t. CHR ''{'' # name @ ''}'' @ t)
                 (fst (populateTextWithVariables rest vars tk)))"
    by (simp add: populateTextWithVariables_def m replacer_def
             split: prod.splits option.splits sum.splits)
next
  assume "\<forall>n tail. n \<noteq> [] \<and> list_all word_char n \<longrightarrow> c # cs \<noteq> CHR ''{'' # n @ CHR ''}'' # tail"
  then have "match_placeholder (c # cs) = None"
    by (rule match_placeholder_None)
  then show "fst (populateTextWithVariables (c # cs) vars tk) =
          map_sum id (\<lambda>t. c # t) (fst (populateTextWithVariables cs vars tk))"
    by (simp add: populateTextWithVariables_def split: prod.splits sum.splits)
next
  show "fst (populateTextWithVariables ''Hello, {name}!'' [(''name'', JStr ''John'')] tk)
          = Inr ''Hello, John!''"
    by (simp add: populateTextWithVariables_def match_placeholder_def word_char_def replacer_def)
next
  show "fst (populateTextWithVariables ''Hi {x}'' [] tk) = Inr ''Hi {x}''"
    by (simp add: populateTextWithVariables_def match_placeholder_def word_char_def replacer_def)
qed

theorem populateTextWithVariables_replaces_witness:
  "fst (populateTextWithVariables ''{n_1} of {total}'' [(''n_1'', JNum ''3'')] ''k'')
     = Inr ''3 of {total}''
   \<and> fst (populateTextWithVariables ''a{total}'' [(''n_1'', JNum ''3'')] ''k'') = Inr ''a{total}''
   \<and> fst (populateTextWithVariables ''{o} items'' [(''o'', JObj [(''toString'', JNum ''1'')])] ''k'')
       = Inl TypeError"
  using populateTextWithVariables_replaces
          [where name = "''n_1''" and rest = "'' of {total}''" and vars = "[(''n_1'', JNum ''3'')]"
             and tk = "''k''" and c = "CHR ''a''" and cs = "''{total}''"]
        populateTextWithVariables_replaces
          [where name = "''o''" and rest = "'' items''"
             and vars = "[(''o'', JObj [(''toString'', JNum ''1'')])]"
             and tk = "''k''" and c = "CHR ''a''" and cs = "[]"]
  by (simp add: word_char_def populateTextWithVariables_def match_placeholder_def replacer_def)

section \<open>Properties of the content store\<close>

text \<open>
  C8. \<open>setContentLanguage\<close> throws on null, on undefined and on every value that is
  not an object, and the state is the one before the call; on every other value (a
  non-null object, arrays included) it returns normally, the active content is the
  value passed and the current language code is the code passed.
\<close>

theorem setContentLanguage_validates:
  "((c = JNull \<or> c = JUndefined \<or> js_typeof c \<noteq> ''object'') \<longrightarrow>
      (\<exists>msg. setContentLanguage st l c = (st, Inl (Error msg))))
   \<and> (c \<noteq> JNull \<and> js_typeof c = ''object'' \<longrightarrow>
      snd (setContentLanguage st l c) = Inr ()
      \<and> activeContent (fst (setContentLanguage st l c)) = c
      \<and> currentLanguageCode (fst (setContentLanguage st l c)) = l)"
  by (cases c) (simp_all add: setContentLanguage_def setContentLanguage_try_def log_def)

theorem setContentLanguage_validates_witness:
  "(\<exists>msg. setContentLanguage (initial_state False) (JStr ''EN'') JNull = (initial_state False, Inl (Error msg)))
   \<and> (\<exists>msg. setContentLanguage (initial_state False) (JStr ''EN'') (JStr ''text'')
          = (initial_state False, Inl (Error msg)))
   \<and> activeContent (fst (setContentLanguage (initial_state False) (JStr ''EN'') (JObj [(''A'', JStr ''v'')])))
        = JObj [(''A'', JStr ''v'')]
   \<and> currentLanguageCode (fst (setContentLanguage (initial_state False) (JStr ''EN'') (JObj [(''A'', JStr ''v'')])))
        = JStr ''EN''"
  using setContentLanguage_validates [where c = JNull and st = "initial_state False" and l = "JStr ''EN''"]
        setContentLanguage_validates [where c = "JStr ''text''" and st = "initial_state False" and l = "JStr ''EN''"]
        setContentLanguage_validates [where c = "JObj [(''A'', JStr ''v'')]" and st = "initial_state False" and l = "JStr ''EN''"]
  by simp

text \<open>
  C10. The guarded body of \<open>setContentLanguage\<close> never throws, so the handler that
  resets the store is not reached: for a non-null object the call ends in the state
  with the new content and language and the log line, and the active content is not
  null afterwards.
\<close>

theorem setContentLanguage_completes_update:
  "\<not> isl (snd (setContentLanguage_try st l c))
   \<and> (c \<noteq> JNull \<and> js_typeof c = ''object'' \<longrightarrow>
        setContentLanguage st l c =
          (log LogLevel ContentLoaded (st\<lparr>activeContent := c, currentLanguageCode := l\<rparr>), Inr ())
        \<and> activeContent (fst (setContentLanguage st l c)) = c
        \<and> activeContent (fst (setContentLanguage st l c)) \<noteq> JNull)"
  by (cases c) (simp_all add: setContentLanguage_def setContentLanguage_try_def log_def)

theorem setContentLanguage_completes_update_witness:
  "setContentLanguage ((initial_state False)\<lparr>activeContent := JObj [(''old'', JStr ''o'')]\<rparr>)
       (JStr ''FR'') (JObj [(''A'', JStr ''v'')])
     = (log LogLevel ContentLoaded
          ((initial_state False)\<lparr>activeContent := JObj [(''A'', JStr ''v'')], currentLanguageCode := JStr ''FR''\<rparr>),
        Inr ())"
  using setContentLanguage_completes_update
          [where c = "JObj [(''A'', JStr ''v'')]" and l = "JStr ''FR''"
             and st = "(initial_state False)\<lparr>activeContent := JObj [(''old'', JStr ''o'')]\<rparr>"]
  by (simp add: initial_state_def)

text \<open>
  C5. As stated the claim fails: a config with a content key and an empty array of
  language codes is accepted and stored.
\<close>

theorem initContentStorage_accepts_empty_languageCodes:
  "initContentStorage (initial_state False)
       (JObj [(''contentKey'', JStr ''key''), (''languageCodes'', JArr [])])
     = ((initial_state False)\<lparr>appConfig :=
          JObj [(''contentKey'', JStr ''key''), (''languageCodes'', JArr [])]\<rparr>, Inr ())"
  by (simp add: initContentStorage_def config_rejected_def)

text \<open>
  C5, amended. \<open>initContentStorage\<close> throws the error that names \<open>contentKey\<close>
  when the content key of the config is missing or falsy (the empty string), and the
  error that names \<open>languageCodes\<close> when the content key is truthy and
  \<open>languageCodes\<close> is not an array. An object with a truthy content key and an
  array of language codes, empty or not, is stored as the app configuration.
\<close>

theorem initContentStorage_rejects:
  "(js_get config ''contentKey'' = Inr ck \<and> \<not> truthy ck \<longrightarrow>
      initContentStorage st config =
        (st, Inl (Error ''[Contentstorage] No contentKey provided in initContentStorage function.'')))
   \<and> (config \<noteq> JNull \<and> js_typeof config = ''object''
        \<and> js_get config ''contentKey'' = Inr ck \<and> truthy ck
        \<and> js_get config ''languageCodes'' = Inr lc \<and> \<not> is_array lc \<longrightarrow>
      initContentStorage st config =
        (st, Inl (Error ''[Contentstorage] No languageCodes provided in initContentStorage function.'')))
   \<and> (config \<noteq> JNull \<and> js_typeof config = ''object''
        \<and> js_get config ''contentKey'' = Inr ck \<and> truthy ck
        \<and> js_get config ''languageCodes'' = Inr lc \<and> is_array lc \<longrightarrow>
      initContentStorage st config = (st\<lparr>appConfig := config\<rparr>, Inr ()))"
  by (cases config) (auto simp: initContentStorage_def config_rejected_def)

theorem initContentStorage_rejects_witness:
  "initContentStorage (initial_state False) (JObj [(''contentKey'', JStr ''''), (''languageCodes'', JArr [JStr ''EN''])])
     = (initial_state False, Inl (Error ''[Contentstorage] No contentKey provided in initContentStorage function.''))
   \<and> initContentStorage (initial_state False) (JObj [(''contentKey'', JStr ''key'')])
     = (initial_state False, Inl (Error ''[Contentstorage] No languageCodes provided in initContentStorage function.''))
   \<and> initContentStorage (initial_state False) (JObj [(''contentKey'', JStr ''key''), (''languageCodes'', JArr [JStr ''EN''])])
     = ((initial_state False)\<lparr>appConfig := JObj [(''contentKey'', JStr ''key''), (''languageCodes'', JArr [JStr ''EN''])]\<rparr>, Inr ())"
  using initContentStorage_rejects
          [where config = "JObj [(''contentKey'', JStr ''''), (''languageCodes'', JArr [JStr ''EN''])]"
             and ck = "JStr ''''" and st = "initial_state False"]
        initContentStorage_rejects
          [where config = "JObj [(''contentKey'', JStr ''key'')]"
             and ck = "JStr ''key''" and lc = JUndefined and st = "initial_state False"]
        initContentStorage_rejects
          [where config = "JObj [(''contentKey'', JStr ''key''), (''languageCodes'', JArr [JStr ''EN''])]"
             and ck = "JStr ''key''" and lc = "JArr [JStr ''EN'']" and st = "initial_state False"]
  by simp

section \<open>Properties of the path resolver\<close>

text \<open>
  Every property read of the traversal and of the node tests is guarded; the one
  thing an accessor can throw is the error of a variable that \<^verbatim>\<open>String\<close> cannot
  convert.
\<close>

lemma split_on_nonempty: "split_on sep s \<noteq> []"
  by (induction s) (auto split: list.splits)













lemma spec_node_at_walk:
  "spec_node_at tree keys = Some v \<Longrightarrow> walk tree keys = Inr (Some v)"
proof (induction keys arbitrary: tree)
  case Nil
  then show ?case by simp
next
  case (Cons k ks)
  then show ?case by (cases tree) (auto split: option.splits)
qed

lemma walk_Some_truthy:
  "walk tree keys = Inr (Some v) \<Longrightarrow> keys \<noteq> [] \<Longrightarrow> truthy tree"
  by (cases keys) (auto split: if_splits)

lemma getText_string_leaf:
  assumes "walk (activeContent st) (split_on CHR ''.'' path) = Inr (Some (JStr s))"
  shows "getText st path variables =
           with_variables (remember (JStr s) path ''text'' None st) path s variables"
proof -
  have "truthy (activeContent st)"
    using assms split_on_nonempty by (rule walk_Some_truthy)
  then show ?thesis using assms by (simp add: getText_def)
qed

text \<open>
  C6. When the traversal of the loaded tree along the segments of a path ends at a
  string, \<open>getText\<close> without variables (or with an empty mapping) returns that
  string as \<open>text\<close> and the path as \<open>contentId\<close>. The second half states the same
  for the spec's reading of a path in a tree of nested mappings.
\<close>

theorem getText_returns_string_leaf:
  "(walk (activeContent st) (split_on CHR ''.'' path) = Inr (Some (JStr s)) \<longrightarrow>
      snd (getText st path None) = Inr \<lparr>contentId = path, text = s\<rparr>
      \<and> snd (getText st path (Some [])) = Inr \<lparr>contentId = path, text = s\<rparr>)
   \<and> (spec_node_at (activeContent st) (split_on CHR ''.'' path) = Some (JStr s) \<longrightarrow>
      snd (getText st path None) = Inr \<lparr>contentId = path, text = s\<rparr>
      \<and> snd (getText st path (Some [])) = Inr \<lparr>contentId = path, text = s\<rparr>)"
proof -
  have main: "snd (getText st path None) = Inr \<lparr>contentId = path, text = s\<rparr>
      \<and> snd (getText st path (Some [])) = Inr \<lparr>contentId = path, text = s\<rparr>"
    if "walk (activeContent st) (split_on CHR ''.'' path) = Inr (Some (JStr s))"
    using getText_string_leaf [OF that] by (simp add: with_variables_def)
  show ?thesis using main spec_node_at_walk by blast
qed

theorem getText_returns_string_leaf_witness:
  "snd (getText ((initial_state True)\<lparr>activeContent :=
          JObj [(''HomePage'', JObj [(''Login'', JStr ''Sign in'')])]\<rparr>) ''HomePage.Login'' None)
     = Inr \<lparr>contentId = ''HomePage.Login'', text = ''Sign in''\<rparr>
   \<and> snd (getText ((initial_state False)\<lparr>activeContent :=
          JObj [(''items'', JArr [JStr ''a'', JStr ''b''])]\<rparr>) ''items.1'' (Some []))
     = Inr \<lparr>contentId = ''items.1'', text = ''b''\<rparr>"
  using getText_returns_string_leaf
          [where st = "(initial_state True)\<lparr>activeContent :=
             JObj [(''HomePage'', JObj [(''Login'', JStr ''Sign in'')])]\<rparr>"
             and path = "''HomePage.Login''" and s = "''Sign in''"]
        getText_returns_string_leaf
          [where st = "(initial_state False)\<lparr>activeContent :=
             JObj [(''items'', JArr [JStr ''a'', JStr ''b''])]\<rparr>"
             and path = "''items.1''" and s = "''b''"]
  by (simp add: array_index_def is_digit_def digit_val_def)



text \<open>
  The error of a conversion does leave \<open>getText\<close>: the text \<open>"Hi {x}"\<close> read with
  a variable whose value has an own, non-callable \<open>toString\<close>.
\<close>

lemma getText_throws_unconvertible_variable:
  "snd (getText ((initial_state False)\<lparr>activeContent := JObj [(''g'', JStr ''Hi {x}'')]\<rparr>)
          ''g'' (Some [(''x'', JObj [(''toString'', JNum ''1'')])]))
   = Inl TypeError"
  by (simp add: getText_def with_variables_def populateTextWithVariables_def
        match_placeholder_def word_char_def replacer_def remember_def initial_state_def)

text \<open>
  C1. A variation node whose data holds the string \<open>"Sign Up"\<close> under \<open>default\<close>,
  read without a variation key: the fallback is guarded by
  \<^verbatim>\<open>typeof variationKey === 'string'\<close>, so the call logs that neither the key nor
  the default was found and returns the empty text, not the default string.
\<close>

theorem getVariation_without_key_ignores_default:
  "getVariation
     ((initial_state False)\<lparr>activeContent :=
        JObj [(''cta'', JObj [(''contentstorage_type'', JStr ''variation''),
                              (''data'', JObj [(''default'', JStr ''Sign Up'')])])]\<rparr>)
     ''cta'' None None
   = (log WarnLevel (GetVariationNeither None ''cta'')
        ((initial_state False)\<lparr>activeContent :=
          JObj [(''cta'', JObj [(''contentstorage_type'', JStr ''variation''),
                                (''data'', JObj [(''default'', JStr ''Sign Up'')])])]\<rparr>),
      Inr \<lparr>contentId = ''cta'', text = []\<rparr>)"
  by (simp add: getVariation_def is_variation_object_def requested_key_def getVariation_default_def)

text \<open>
  C4. A variation node whose default is \<open>"Hi {x}"\<close>, read with a key that is absent
  from its data and with the variables \<open>{ x: "Ann" }\<close>: the fallback returns the
  default as stored, \<open>"Hi {x}"\<close>, where the interpolator gives \<open>"Hi Ann"\<close>. The
  branch of a key that is present interpolates.
\<close>

theorem getVariation_default_not_interpolated:
  "snd (getVariation
     ((initial_state False)\<lparr>activeContent :=
        JObj [(''cta'', JObj [(''contentstorage_type'', JStr ''variation''),
                              (''data'', JObj [(''default'', JStr ''Hi {x}''), (''b'', JStr ''Yo {x}'')])])]\<rparr>)
     ''cta'' (Some ''missing'') (Some [(''x'', JStr ''Ann'')]))
   = Inr \<lparr>contentId = ''cta'', text = ''Hi {x}''\<rparr>
   \<and> fst (populateTextWithVariables ''Hi {x}'' [(''x'', JStr ''Ann'')] ''cta'') = Inr ''Hi Ann''
   \<and> snd (getVariation
     ((initial_state False)\<lparr>activeContent :=
        JObj [(''cta'', JObj [(''contentstorage_type'', JStr ''variation''),
                              (''data'', JObj [(''default'', JStr ''Hi {x}''), (''b'', JStr ''Yo {x}'')])])]\<rparr>)
     ''cta'' (Some ''b'') (Some [(''x'', JStr ''Ann'')]))
   = Inr \<lparr>contentId = ''cta'', text = ''Yo Ann''\<rparr>"
  by (simp add: getVariation_def is_variation_object_def requested_key_def getVariation_default_def
        with_variables_def populateTextWithVariables_def match_placeholder_def word_char_def
        replacer_def remember_def initial_state_def log_def)

section \<open>Properties of the fetch coordinator\<close>

lemmas coordinator_eval =
  fetchContent_def resolve_target_def schedule_draft_def timer_fires_def settle_draft_def
  settle_cdn_def receive_def setContentLanguage_def setContentLanguage_try_def log_def
  log_failure_def initial_coordinator_def initial_state_def js_or_def Let_def
  array_index_def is_digit_def digit_val_def

lemma receive_rejects_primitive:
  assumes "jsonData \<noteq> JUndefined" "jsonData \<noteq> JNull" "js_typeof jsonData \<noteq> ''object''"
  shows "\<exists>msg. receive st locals unwrap (Response jsonData) = (st, Inl (Error msg))"
  using assms by (cases jsonData) (simp_all add: receive_def)

text \<open>
  C2. A response whose body is an array passes both checks of the body, since
  \<^verbatim>\<open>typeof\<close> of an array is \<open>'object'\<close>: on the CDN path, and on the draft path
  after the envelope is unwrapped, the array becomes the active content, the promise
  is fulfilled and no error is logged. (A body that is a boolean, a number or a string
  is refused, as \<open>receive_rejects_primitive\<close> shows.)
\<close>

theorem fetchContent_accepts_array_body:
  "map_option (\<lambda>c'. (activeContent (store c'), promises c' 0,
                       filter (\<lambda>e. fst e = ErrorLevel) (console (store c'))))
     (run cfg
        (initial_coordinator ((initial_state False)\<lparr>appConfig :=
           JObj [(''contentKey'', JStr ''key''), (''languageCodes'', JArr [JStr ''EN''])]\<rparr>))
        [Call (JStr ''EN'') \<lparr>withPendingChanges = JUndefined, contentKey = JUndefined\<rparr>,
         Settles 0 (Response (JArr [JStr ''a'']))])
   = Some (JArr [JStr ''a''], Some Fulfilled, [])
   \<and> map_option (\<lambda>c'. (activeContent (store c'), promises c' 0,
                       filter (\<lambda>e. fst e = ErrorLevel) (console (store c'))))
     (run cfg
        (initial_coordinator ((initial_state False)\<lparr>appConfig :=
           JObj [(''contentKey'', JStr ''key''), (''languageCodes'', JArr [JStr ''EN''])]\<rparr>))
        [Call (JStr ''EN'') \<lparr>withPendingChanges = JBool True, contentKey = JUndefined\<rparr>,
         TimerFires 0,
         Settles 0 (Response (JObj [(''data'', JArr [JStr ''a''])]))])
   = Some (JArr [JStr ''a''], Some Fulfilled, [])"
  by (simp add: coordinator_eval)

text \<open>The calls that can no longer act stay so, whatever happens next.\<close>

lemma resolve_target_log [simp]:
  "resolve_target cfg (log lvl m st) language options = resolve_target cfg st language options"
  by (simp add: resolve_target_def log_def Let_def)

lemma schedule_draft_frame:
  "issued (schedule_draft c j locals) = issued c"
  "next_id (schedule_draft c j locals) = next_id c"
  "store (schedule_draft c j locals) = store c"
  by (auto simp: schedule_draft_def Let_def split: option.splits)

lemma schedule_draft_other:
  assumes "i \<noteq> j"
  shows "inflight (schedule_draft c j locals) i = inflight c i"
    and "promises (schedule_draft c j locals) i = promises c i"
    and "timers c i = None \<Longrightarrow> timers (schedule_draft c j locals) i = None"
    and "debounceTimers c (requestKey locals) = Some i \<Longrightarrow> timers (schedule_draft c j locals) i = None"
  using assms by (auto simp: schedule_draft_def Let_def split: option.splits)

lemma falsy_converts: "\<not> truthy v \<Longrightarrow> \<not> isl (js_String v)"
  by (cases v) simp_all

lemma resolve_target_converts:
  assumes "resolve_target cfg st language options = Inr r"
  shows "\<not> isl (js_String language)"
proof (cases "truthy language")
  case False
  then show ?thesis by (rule falsy_converts)
next
  case True
  then have "js_or language (opt_get (opt_get (appConfig st) ''languageCodes'') ''0'') = language"
    by (simp add: js_or_def)
  with assms show ?thesis
    by (auto simp: resolve_target_def Let_def split: if_splits sum.splits)
qed

lemma fetchContent_superseded:
  assumes "superseded c i"
  shows "superseded (fetchContent cfg c language options) i
         \<and> filter (\<lambda>x. fst x = i) (issued (fetchContent cfg c language options))
           = filter (\<lambda>x. fst x = i) (issued c)"
proof -
  from assms have ne: "i \<noteq> next_id c" and t: "timers c i = None"
    and f: "inflight c i = None" and p: "promises c i = Some Pending" and lt: "i < next_id c"
    by (auto simp: superseded_def)
  show ?thesis
  proof (cases "js_String language")
    case (Inl e)
    then show ?thesis using ne t f p lt
      by (simp add: fetchContent_def Let_def superseded_def)
  next
    case conv: (Inr languageName)
    show ?thesis
    proof (cases "resolve_target cfg (store c) language options")
      case (Inl e)
      then show ?thesis using conv ne t f p lt
        by (simp add: fetchContent_def Let_def superseded_def)
    next
      case (Inr r)
      obtain draft locals where r: "r = (draft, locals)" by (cases r)
      show ?thesis
      proof (cases draft)
        case True
        then show ?thesis using conv Inr r ne t f p lt
          by (simp add: fetchContent_def Let_def superseded_def schedule_draft_other
                schedule_draft_frame)
      next
        case False
        then show ?thesis using conv Inr r ne t f p lt
          by (simp add: fetchContent_def Let_def superseded_def)
      qed
    qed
  qed
qed

lemma step_superseded:
  assumes "superseded c i" and "step cfg c e = Some c'"
  shows "superseded c' i \<and> filter (\<lambda>x. fst x = i) (issued c') = filter (\<lambda>x. fst x = i) (issued c)"
proof (cases e)
  case (Call language options)
  then show ?thesis using assms fetchContent_superseded by auto
next
  case (TimerFires j)
  with assms obtain locals where l: "timers c j = Some locals" and c': "c' = timer_fires c j locals"
    by (auto split: option.splits)
  from assms(1) l have "j \<noteq> i" by (auto simp: superseded_def)
  then show ?thesis using assms(1) c' by (auto simp: superseded_def timer_fires_def)
next
  case (Settles j r)
  with assms obtain draft locals where l: "inflight c j = Some (draft, locals)"
    and c': "c' = (if draft then settle_draft c j locals r else settle_cdn c j locals r)"
    by (auto split: option.splits)
  from assms(1) l have "j \<noteq> i" by (auto simp: superseded_def)
  then show ?thesis using assms(1) c'
    by (auto simp: superseded_def settle_draft_def settle_cdn_def Let_def
             split: prod.splits sum.splits)
qed

lemma run_superseded:
  "superseded c i \<Longrightarrow> run cfg c es = Some c' \<Longrightarrow>
   superseded c' i \<and> filter (\<lambda>x. fst x = i) (issued c') = filter (\<lambda>x. fst x = i) (issued c)"
proof (induction es arbitrary: c)
  case Nil
  then show ?case by simp
next
  case (Cons e es)
  from Cons.prems(2) obtain c1 where s: "step cfg c e = Some c1" and r: "run cfg c1 es = Some c'"
    by (auto split: option.splits)
  from step_superseded [OF Cons.prems(1) s] Cons.IH [OF _ r] show ?case by simp
qed

text \<open>
  C3. Take a state in which the timer of draft call \<open>i\<close> is armed for a request
  key (the call was made and its timer has not fired), and a second draft call for
  the same key. Whatever happens afterwards, call \<open>i\<close> issues no request and never
  runs again, so it changes nothing in the store; and its promise is pending forever:
  it is never resolved, not even as a cancellation.
\<close>

theorem superseded_draft_call_stays_pending:
  assumes "timers c i = Some locals"
    and "debounceTimers c (requestKey locals) = Some i"
    and "inflight c i = None"
    and "promises c i = Some Pending"
    and "i < next_id c"
    and "resolve_target cfg (store c) language options = Inr (True, locals')"
    and "requestKey locals' = requestKey locals"
    and "run cfg (fetchContent cfg c language options) es = Some c'"
  shows "promises c' i = Some Pending
         \<and> step cfg c' (TimerFires i) = None
         \<and> step cfg c' (Settles i r) = None
         \<and> filter (\<lambda>x. fst x = i) (issued c') = filter (\<lambda>x. fst x = i) (issued c)"
proof -
  let ?c2 = "fetchContent cfg c language options"
  have ne: "i \<noteq> next_id c" using assms(5) by simp
  obtain languageName where conv: "js_String language = Inr languageName"
    using resolve_target_converts [OF assms(6)] by (cases "js_String language") auto
  have c2: "?c2 = schedule_draft
      (c\<lparr>next_id := Suc (next_id c),
         store := log LogLevel (StartingFetch languageName) (store c)\<rparr>)
      (next_id c) locals'"
    using assms(6) conv by (simp add: fetchContent_def Let_def)
  have "superseded ?c2 i"
    unfolding c2 superseded_def using ne assms(2,3,4,5,7)
    by (simp add: schedule_draft_other schedule_draft_frame)
  moreover have "filter (\<lambda>x. fst x = i) (issued ?c2) = filter (\<lambda>x. fst x = i) (issued c)"
    unfolding c2 by (simp add: schedule_draft_frame)
  ultimately have "superseded c' i
      \<and> filter (\<lambda>x. fst x = i) (issued c') = filter (\<lambda>x. fst x = i) (issued c)"
    using run_superseded [OF _ assms(8)] by simp
  then show ?thesis by (simp add: superseded_def)
qed

theorem superseded_draft_call_stays_pending_witness:
  "map_option (\<lambda>c'. (promises c' 0, promises c' 1, map fst (issued c'), activeContent (store c')))
     (run \<lparr>BASE_URL = ''https://cdn'', API_URL = ''https://api''\<rparr>
        (fetchContent \<lparr>BASE_URL = ''https://cdn'', API_URL = ''https://api''\<rparr>
           (fetchContent \<lparr>BASE_URL = ''https://cdn'', API_URL = ''https://api''\<rparr>
              (initial_coordinator ((initial_state False)\<lparr>appConfig :=
                 JObj [(''contentKey'', JStr ''key''), (''languageCodes'', JArr [JStr ''EN''])]\<rparr>))
              (JStr ''EN'') \<lparr>withPendingChanges = JBool True, contentKey = JUndefined\<rparr>)
           JUndefined \<lparr>withPendingChanges = JBool True, contentKey = JUndefined\<rparr>)
        [TimerFires 1, Settles 1 (Response (JObj [(''data'', JObj [(''A'', JStr ''v'')])]))])
   = Some (Some Pending, Some Fulfilled, [1], JObj [(''A'', JStr ''v'')])"
proof -
  let ?cfg = "\<lparr>BASE_URL = ''https://cdn'', API_URL = ''https://api''\<rparr>"
  let ?o = "\<lparr>withPendingChanges = JBool True, contentKey = JUndefined\<rparr>"
  let ?c0 = "initial_coordinator ((initial_state False)\<lparr>appConfig :=
                 JObj [(''contentKey'', JStr ''key''), (''languageCodes'', JArr [JStr ''EN''])]\<rparr>)"
  let ?c1 = "fetchContent ?cfg ?c0 (JStr ''EN'') ?o"
  let ?es = "[TimerFires 1, Settles 1 (Response (JObj [(''data'', JObj [(''A'', JStr ''v'')])]))]"
  let ?locals = "\<lparr>languageToFetch = JStr ''EN'', languageText = ''EN'',
                  effectiveContentKey = JStr ''key'',
                  fileUrl = ''https://api/pending-changes/get-json?languageCode=EN'',
                  requestKey = ''EN:key''\<rparr>"
  have t: "timers ?c1 0 = Some ?locals"
    and d: "debounceTimers ?c1 (requestKey ?locals) = Some 0"
    and f: "inflight ?c1 0 = None"
    and p: "promises ?c1 0 = Some Pending"
    and n: "0 < next_id ?c1"
    and rt: "resolve_target ?cfg (store ?c1) JUndefined ?o = Inr (True, ?locals)"
    by (simp_all add: coordinator_eval)
  obtain c' where run: "run ?cfg (fetchContent ?cfg ?c1 JUndefined ?o) ?es = Some c'"
    by (simp add: coordinator_eval)
  have "promises c' 0 = Some Pending"
    using superseded_draft_call_stays_pending [OF t d f p n rt _ run] by simp
  moreover have "promises c' 1 = Some Fulfilled \<and> map fst (issued c') = [1]
      \<and> activeContent (store c') = JObj [(''A'', JStr ''v'')]"
    using run by (auto simp add: coordinator_eval)
  ultimately show ?thesis using run by simp
qed

end
